theory Spec2Isabelle
  imports Complex_Main
begin

section \<open>FAO-56 irrigation auditor: the weather fetch and the water balance\<close>

text \<open>
  A shallow embedding of \<^verbatim>\<open>irrigation_app.py\<close> (the dashboard) and of the water-balance
  lines of \<^verbatim>\<open>irrigation_engine.py\<close> (the report script).

  Numbers. The program computes on Python and NumPy floats. A finite float is modelled as a
  \<^typ>\<open>real\<close> and the operations on finite floats as the exact operations on reals, so
  rounding and overflow of float64 are outside the model. What the code does with a value
  that is not a number is inside it: a missing reading of the weather provider is \<open>None\<close>
  (pandas' NaN in a raw column), and the one division of the program, whose divisor can be
  zero, returns a value of the type \<open>npfloat\<close> below.

  The pump capacity is the value of the widget of line 78, \<^verbatim>\<open>number_input\<close> with the
  integer default 200, which returns an integer; no lower bound is set, so zero and
  negative integers can be entered. Line 139 applies \<^verbatim>\<open>int\<close> to it, which is defined
  on every number, and is modelled on every number; the capacities that the dashboard
  passes are the numbers \<open>of_int n\<close>.

  Effects. The fetch sleeps and calls the network; both are recorded in an explicit record
  that the retry loop threads through. Exceptions are values of the type \<open>error\<close>.
  Widgets, charts and text formatting are not modelled. Of \<^verbatim>\<open>pd.to_datetime\<close> the model
  keeps whether it reads an entry as a date or raises.
\<close>

subsection \<open>Values and errors\<close>

text \<open>The exception classes that the modelled lines can raise.\<close>

datatype error =
    RequestException  \<comment> \<open>\<^verbatim>\<open>requests.exceptions.RequestException\<close>, with its subclass HTTPError\<close>
  | KeyError          \<comment> \<open>a key of the response is missing\<close>
  | TypeError         \<comment> \<open>the response, or its \<^verbatim>\<open>daily\<close> entry, is not a JSON object\<close>
  | ValueError        \<comment> \<open>columns of unequal length; text that is no date; \<^verbatim>\<open>int(nan)\<close>\<close>
  | IndexError        \<comment> \<open>\<^verbatim>\<open>df.iloc[2]\<close> out of bounds\<close>
  | OverflowError     \<comment> \<open>\<^verbatim>\<open>int(inf)\<close>\<close>

text \<open>A float64 after a division: a finite number, an infinity or NaN.\<close>

datatype npfloat = Finite real | Inf | NegInf | NaN

text \<open>
  Division of a pandas Series by a number: NumPy's float division, which never raises. A
  zero divisor gives an infinity with the sign of the dividend, and NaN for \<open>0 / 0\<close>.
\<close>

definition np_div :: "real \<Rightarrow> real \<Rightarrow> npfloat" where
  "np_div x d =
     (if d \<noteq> 0 then Finite (x / d)
      else if 0 < x then Inf
      else if x < 0 then NegInf
      else NaN)"

text \<open>The comparison \<open>\<le>\<close> of IEEE floats: NaN is comparable with nothing.\<close>

fun np_le :: "npfloat \<Rightarrow> npfloat \<Rightarrow> bool" where
  "np_le NaN _ = False"
| "np_le _ NaN = False"
| "np_le NegInf _ = True"
| "np_le _ Inf = True"
| "np_le (Finite x) (Finite y) = (x \<le> y)"
| "np_le _ _ = False"

text \<open>Python's \<^verbatim>\<open>int(x)\<close> on a finite number: truncation toward zero.\<close>

definition py_int :: "real \<Rightarrow> int" where
  "py_int x = (if 0 \<le> x then \<lfloor>x\<rfloor> else \<lceil>x\<rceil>)"

text \<open>
  Python's \<^verbatim>\<open>int(x)\<close> on a float64: \<^verbatim>\<open>int(inf)\<close> raises OverflowError and
  \<^verbatim>\<open>int(nan)\<close> raises ValueError.
\<close>

fun py_int_float :: "npfloat \<Rightarrow> error + int" where
  "py_int_float (Finite x) = Inr (py_int x)"
| "py_int_float Inf = Inl OverflowError"
| "py_int_float NegInf = Inl OverflowError"
| "py_int_float NaN = Inl ValueError"

text \<open>
  \<^verbatim>\<open>x % 1\<close> on floats: the result has the sign of the divisor, so it is the fractional
  part \<open>x - \<lfloor>x\<rfloor>\<close>; on an infinity or NaN it is NaN.
\<close>

fun np_mod1 :: "npfloat \<Rightarrow> npfloat" where
  "np_mod1 (Finite x) = Finite (frac x)"
| "np_mod1 _ = NaN"

fun np_times :: "npfloat \<Rightarrow> real \<Rightarrow> npfloat" where
  "np_times (Finite x) c = Finite (x * c)"
| "np_times Inf c = (if 0 < c then Inf else if c < 0 then NegInf else NaN)"
| "np_times NegInf c = (if 0 < c then NegInf else if c < 0 then Inf else NaN)"
| "np_times NaN c = NaN"

subsection \<open>The weather series and its cleaning\<close>

text \<open>
  One row of the data frame that \<^verbatim>\<open>get_weather_data_safe\<close> returns: the columns
  \<^verbatim>\<open>Date\<close>, \<^verbatim>\<open>ETo\<close> and \<^verbatim>\<open>Rain\<close>. The data frame is the list of its rows;
  \<^verbatim>\<open>df.empty\<close> is the empty list.
\<close>

record weather_day =
  Date :: string
  ETo :: real
  Rain :: real

text \<open>
  \<^verbatim>\<open>Series.interpolate()\<close> of pandas with its defaults (method linear, direction
  forward, rows equally spaced), as the library documents it: a missing value between two
  known ones lies on the line through them, a missing value after the last known one
  repeats it, and a missing value before the first known one stays missing.
  The state is the last known value with the number of missing values passed since.
\<close>

fun next_known :: "real option list \<Rightarrow> real option" where
  "next_known [] = None"
| "next_known (Some b # xs) = Some b"
| "next_known (None # xs) = next_known xs"

fun interpolate_from :: "(real \<times> nat) option \<Rightarrow> real option list \<Rightarrow> real option list" where
  "interpolate_from st [] = []"
| "interpolate_from st (Some v # xs) = Some v # interpolate_from (Some (v, 0)) xs"
| "interpolate_from None (None # xs) = None # interpolate_from None xs"
| "interpolate_from (Some (a, j)) (None # xs) =
     (case next_known xs of
        None \<Rightarrow> Some a
      | Some b \<Rightarrow>
          Some (a + (b - a) * real (j + 1)
                  / real (j + 2 + length (takeWhile (\<lambda>x. x = None) xs))))
     # interpolate_from (Some (a, j + 1)) xs"

definition interpolate :: "real option list \<Rightarrow> real option list" where
  "interpolate xs = interpolate_from None xs"

text \<open>\<^verbatim>\<open>Series.fillna(c)\<close>.\<close>

definition fillna :: "real \<Rightarrow> real option list \<Rightarrow> real list" where
  "fillna c xs = map (\<lambda>x. case x of None \<Rightarrow> c | Some v \<Rightarrow> v) xs"

text \<open>
  Lines 109 and 110. \<^verbatim>\<open>pd.to_numeric(..., errors='coerce')\<close> turns a null or an
  unreadable entry into NaN: a raw column is already a list of optional numbers here.
\<close>

definition clean_ETo :: "real option list \<Rightarrow> real list" where
  "clean_ETo raw = fillna 3.5 (interpolate raw)"

definition clean_Rain :: "real option list \<Rightarrow> real list" where
  "clean_Rain raw = fillna 0.0 raw"

fun make_rows :: "string list \<Rightarrow> real list \<Rightarrow> real list \<Rightarrow> weather_day list" where
  "make_rows (t # ts) (e # es) (r # rs) = \<lparr>Date = t, ETo = e, Rain = r\<rparr> # make_rows ts es rs"
| "make_rows _ _ _ = []"

subsection \<open>One request and the retry loop\<close>

text \<open>
  An entry of the \<^verbatim>\<open>time\<close> array with what \<^verbatim>\<open>pd.to_datetime\<close> (line 106) makes of
  it: text that it reads as a date, or text on which it raises.
\<close>

datatype time_entry = Is_date string | No_date string

text \<open>
  The body of a response, as far as lines 97 to 103 read it. The body is not JSON; or the
  JSON value, or its entry \<^verbatim>\<open>daily\<close>, is not an object (a null, a list, a number, a
  string), so that subscripting it with a key fails; or one of the keys \<^verbatim>\<open>daily\<close>,
  \<^verbatim>\<open>time\<close>, \<^verbatim>\<open>et0_fao_evapotranspiration\<close>, \<^verbatim>\<open>precipitation_sum\<close> is missing; or
  the three arrays are there: texts, and numbers or nulls.
\<close>

datatype payload =
    NotJSON
  | NotAnObject
  | MissingKeys
  | Daily "time_entry list" "real option list" "real option list"

text \<open>
  \<^verbatim>\<open>pd.to_datetime\<close> on the column of line 106: it raises ValueError at the first text that
  is no date.
\<close>

fun to_datetime :: "time_entry list \<Rightarrow> string list option" where
  "to_datetime [] = Some []"
| "to_datetime (Is_date t # ts) = map_option ((#) t) (to_datetime ts)"
| "to_datetime (No_date t # ts) = None"

text \<open>
  What \<^verbatim>\<open>requests.get(url, timeout=10)\<close> does: it raises (timeout, connection error),
  or it returns a response with a status code and a body.
\<close>

datatype response =
    NoResponse
  | Response nat payload

text \<open>
  The body of the \<^verbatim>\<open>try\<close> block, lines 90 to 112. \<^verbatim>\<open>raise_for_status\<close> raises
  HTTPError for every status from 400 to 599, so the test for 429 before it changes
  nothing. \<^verbatim>\<open>response.json()\<close> raises the JSONDecodeError of \<^verbatim>\<open>requests\<close>, which is a
  RequestException, on a body that is not JSON. Subscripting raises TypeError on a value
  that is not an object and KeyError on a missing key. The DataFrame constructor raises
  ValueError when the arrays differ in length, and \<^verbatim>\<open>pd.to_datetime\<close> raises ValueError
  on text that is no date.
\<close>

fun attempt_once :: "response \<Rightarrow> error + weather_day list" where
  "attempt_once NoResponse = Inl RequestException"
| "attempt_once (Response code body) =
     (if 400 \<le> code \<and> code < 600 then Inl RequestException
      else case body of
        NotJSON \<Rightarrow> Inl RequestException
      | NotAnObject \<Rightarrow> Inl TypeError
      | MissingKeys \<Rightarrow> Inl KeyError
      | Daily ts es rs \<Rightarrow>
          if length es \<noteq> length ts \<or> length rs \<noteq> length ts then Inl ValueError
          else case to_datetime ts of
            None \<Rightarrow> Inl ValueError
          | Some dates \<Rightarrow> Inr (make_rows dates (clean_ETo es) (clean_Rain rs)))"

text \<open>
  The effects of a fetch: the delays slept, in seconds and in order, the number of requests
  sent, and whether the advisory message of line 120 was shown.
\<close>

record effects =
  slept :: "nat list"
  requests :: nat
  advisory :: bool

definition no_effects :: effects where
  "no_effects = \<lparr>slept = [], requests = 0, advisory = False\<rparr>"

text \<open>
  The \<^verbatim>\<open>for attempt in range(3)\<close> loop, as a recursion over the attempts that are
  left. The network is a function from the attempt number to what the request of that
  attempt meets. Only RequestException is caught (line 114): it sleeps \<open>2 ^ attempt\<close>
  seconds and continues. Any other exception leaves the function. When the attempts are
  used up, the advisory is shown and an empty data frame is returned (lines 120, 121).
\<close>

fun retry_loop :: "(nat \<Rightarrow> response) \<Rightarrow> nat list \<Rightarrow> effects \<Rightarrow> (error + weather_day list) \<times> effects" where
  "retry_loop net [] fx = (Inr [], fx\<lparr>advisory := True\<rparr>)"
| "retry_loop net (attempt # rest) fx =
     (let fx1 = fx\<lparr>requests := requests fx + 1\<rparr> in
      case attempt_once (net attempt) of
        Inr df \<Rightarrow> (Inr df, fx1)
      | Inl RequestException \<Rightarrow> retry_loop net rest (fx1\<lparr>slept := slept fx1 @ [2 ^ attempt]\<rparr>)
      | Inl e \<Rightarrow> (Inl e, fx1))"

definition get_weather_data_safe :: "(nat \<Rightarrow> response) \<Rightarrow> (error + weather_day list) \<times> effects" where
  "get_weather_data_safe net = retry_loop net [0..<3] no_effects"

subsection \<open>The water balance\<close>

text \<open>
  A row after lines 134 to 139 of the dashboard: the three new columns, computed on the
  cleaned columns, where every reading is a number.
\<close>

record balance_row = weather_day +
  Crop_Water_Need :: real
  Irrigation_Req :: real
  Pump_Hours :: npfloat

text \<open>\<^verbatim>\<open>Series.clip(lower=0)\<close> on one entry.\<close>

definition clip_lower0 :: "real \<Rightarrow> real" where
  "clip_lower0 x = (if x < 0 then 0 else x)"

definition crop_water_need :: "real \<Rightarrow> weather_day \<Rightarrow> real" where
  "crop_water_need kc d = ETo d * kc"

definition irrigation_req :: "real \<Rightarrow> weather_day \<Rightarrow> real" where
  "irrigation_req kc d = clip_lower0 (crop_water_need kc d - Rain d)"

text \<open>Line 138, one entry of the series \<^verbatim>\<open>total_liters\<close>.\<close>

definition total_liters :: "real \<Rightarrow> real \<Rightarrow> weather_day \<Rightarrow> real" where
  "total_liters kc field_size d = irrigation_req kc d * 4046.86 * field_size"

text \<open>Line 139: the divisor is \<^verbatim>\<open>int(pump_capacity) * 60\<close>.\<close>

definition pump_hours :: "real \<Rightarrow> real \<Rightarrow> real \<Rightarrow> weather_day \<Rightarrow> npfloat" where
  "pump_hours kc field_size pump_capacity d =
     np_div (total_liters kc field_size d) (of_int (py_int pump_capacity * 60))"

definition balance :: "real \<Rightarrow> real \<Rightarrow> real \<Rightarrow> weather_day \<Rightarrow> balance_row" where
  "balance kc field_size pump_capacity d =
     \<lparr>Date = Date d, ETo = ETo d, Rain = Rain d,
      Crop_Water_Need = crop_water_need kc d,
      Irrigation_Req = irrigation_req kc d,
      Pump_Hours = pump_hours kc field_size pump_capacity d\<rparr>"

definition compute :: "real \<Rightarrow> real \<Rightarrow> real \<Rightarrow> weather_day list \<Rightarrow> balance_row list" where
  "compute kc field_size pump_capacity df = map (balance kc field_size pump_capacity) df"

subsection \<open>The report script\<close>

text \<open>
  Lines 41 to 58 of \<^verbatim>\<open>irrigation_engine.py\<close>. The script builds its data frame from the
  arrays as fetched and does not clean them: a null reading is a missing value of its
  column, NaN, and NaN stays NaN under the multiplication of line 52, the subtraction of
  line 57 and the \<^verbatim>\<open>clip\<close> of line 58. The crop coefficient of the script is the constant
  of the selected crop (1.1 for maize).
\<close>

definition to_float :: "real option \<Rightarrow> npfloat" where
  "to_float x = (case x of None \<Rightarrow> NaN | Some v \<Rightarrow> Finite v)"

fun np_minus :: "npfloat \<Rightarrow> npfloat \<Rightarrow> npfloat" where
  "np_minus (Finite x) (Finite y) = Finite (x - y)"
| "np_minus NaN _ = NaN"
| "np_minus _ NaN = NaN"
| "np_minus Inf Inf = NaN"
| "np_minus NegInf NegInf = NaN"
| "np_minus Inf _ = Inf"
| "np_minus NegInf _ = NegInf"
| "np_minus (Finite x) Inf = NegInf"
| "np_minus (Finite x) NegInf = Inf"

text \<open>\<^verbatim>\<open>Series.clip(lower=0)\<close> on one entry of a column that may hold NaN.\<close>

fun np_clip_lower0 :: "npfloat \<Rightarrow> npfloat" where
  "np_clip_lower0 (Finite x) = Finite (clip_lower0 x)"
| "np_clip_lower0 Inf = Inf"
| "np_clip_lower0 NegInf = Finite 0"
| "np_clip_lower0 NaN = NaN"

text \<open>
  A row of the data frame of the script: the columns \<^verbatim>\<open>Date\<close>, \<^verbatim>\<open>Temp_Max\<close>,
  \<^verbatim>\<open>Rain (mm)\<close>, \<^verbatim>\<open>ETo (mm)\<close>, \<^verbatim>\<open>Crop_Need (mm)\<close> and
  \<^verbatim>\<open>Irrigation_Needed (mm)\<close>.
\<close>

record engine_row =
  Day :: string
  Temp_Max :: npfloat
  Rain_mm :: npfloat
  ETo_mm :: npfloat
  Crop_Need_mm :: npfloat
  Irrigation_Needed_mm :: npfloat

definition engine_day ::
  "real \<Rightarrow> string \<Rightarrow> real option \<Rightarrow> real option \<Rightarrow> real option \<Rightarrow> engine_row" where
  "engine_day kc_value t temp rain eto =
     (let crop_need = np_times (to_float eto) kc_value in
      \<lparr>Day = t, Temp_Max = to_float temp, Rain_mm = to_float rain, ETo_mm = to_float eto,
       Crop_Need_mm = crop_need,
       Irrigation_Needed_mm = np_clip_lower0 (np_minus crop_need (to_float rain))\<rparr>)"



subsection \<open>The reference day and the recommendation\<close>

datatype status = WATER_STRESS | ADEQUATE

text \<open>
  What the dashboard shows for the reference day, \<^verbatim>\<open>df.iloc[2]\<close>: the row, the pump
  runtime of line 152 and the status of lines 189 to 196.
\<close>

record summary =
  today :: balance_row
  hrs :: int
  mins :: int
  status :: status

text \<open>
  The outcome of pressing the button: nothing is computed (the data frame is empty, line
  131), or the \<^verbatim>\<open>try\<close> block of lines 132 to 208 raises after the balance columns
  were computed and the message \<^verbatim>\<open>Calculation Error\<close> is shown, or the summary is shown.
\<close>

datatype outcome =
    Suppressed
  | Calculation_Error error "balance_row list"
  | Report "balance_row list" summary

text \<open>Lines 150 and 151 with line 189.\<close>

definition summarize :: "balance_row list \<Rightarrow> error + summary" where
  "summarize rows =
     (if length rows \<le> 2 then Inl IndexError
      else
        let t = rows ! 2 in
        case py_int_float (Pump_Hours t) of
          Inl e \<Rightarrow> Inl e
        | Inr h \<Rightarrow>
            (case py_int_float (np_times (np_mod1 (Pump_Hours t)) 60) of
               Inl e \<Rightarrow> Inl e
             | Inr m \<Rightarrow>
                 Inr \<lparr>today = t, hrs = h, mins = m,
                      status = (if 0 < Irrigation_Req t then WATER_STRESS else ADEQUATE)\<rparr>))"

definition run_audit :: "real \<Rightarrow> real \<Rightarrow> real \<Rightarrow> weather_day list \<Rightarrow> outcome" where
  "run_audit kc field_size pump_capacity df =
     (if df = [] then Suppressed
      else
        let rows = compute kc field_size pump_capacity df in
        case summarize rows of
          Inl e \<Rightarrow> Calculation_Error e rows
        | Inr s \<Rightarrow> Report rows s)"

text \<open>
  The whole run of lines 129 to 208: an exception that leaves the fetch is not caught by
  the button handler.
\<close>

definition audit_button :: "(nat \<Rightarrow> response) \<Rightarrow> real \<Rightarrow> real \<Rightarrow> real \<Rightarrow> error + outcome" where
  "audit_button net kc field_size pump_capacity =
     (case fst (get_weather_data_safe net) of
        Inl e \<Rightarrow> Inl e
      | Inr df \<Rightarrow> Inr (run_audit kc field_size pump_capacity df))"

subsection \<open>The scenarios of the specification, as inputs\<close>

text \<open>Scenario A: \<open>eto_mm = 5.0\<close> and \<open>rain_mm = 2.0\<close>, used with \<open>kc = 1.1\<close>.\<close>

definition scenario_A :: weather_day where
  "scenario_A = \<lparr>Date = ''2025-01-03'', ETo = 5.0, Rain = 2.0\<rparr>"

text \<open>Scenario B: \<open>eto_mm = 3.0\<close> and \<open>rain_mm = 10.0\<close>, used with \<open>kc = 0.8\<close>.\<close>

definition scenario_B :: weather_day where
  "scenario_B = \<lparr>Date = ''2025-01-03'', ETo = 3.0, Rain = 10.0\<rparr>"

text \<open>A data frame whose reference day (row 2) is the given day.\<close>

definition three_days :: "weather_day \<Rightarrow> weather_day list" where
  "three_days d = [d, d, d]"

text \<open>
  Networks for the fetch: what the request of each attempt meets. A provider that is down,
  one that answers 404 every time, one that answers 200 with a body that is not JSON, one
  that answers 200 with a body that lacks the keys, one whose arrays differ in length, and
  one that times out, then limits the rate, then answers.
\<close>

definition net_not_json :: "nat \<Rightarrow> response" where
  "net_not_json attempt = Response 200 NotJSON"

definition net_down :: "nat \<Rightarrow> response" where
  "net_down attempt = NoResponse"

definition net_not_found :: "nat \<Rightarrow> response" where
  "net_not_found attempt = Response 404 MissingKeys"

definition net_malformed :: "nat \<Rightarrow> response" where
  "net_malformed attempt = Response 200 MissingKeys"

definition net_ragged :: "nat \<Rightarrow> response" where
  "net_ragged attempt =
     Response 200
       (Daily [Is_date ''2025-01-01'', Is_date ''2025-01-02''] [Some 5] [Some 2, None])"

definition net_third_time :: "nat \<Rightarrow> response" where
  "net_third_time attempt =
     (if attempt = 0 then NoResponse
      else if attempt = 1 then Response 429 MissingKeys
      else Response 200 (Daily [Is_date ''2025-01-03''] [Some 5] [Some 2]))"

section \<open>Properties\<close>

subsection \<open>Auxiliary facts\<close>

lemma py_int_of_int: "py_int (of_int n) = n"
  by (simp add: py_int_def)

lemma py_int_ge1: "1 \<le> x \<Longrightarrow> py_int x = \<lfloor>x\<rfloor> \<and> 1 \<le> \<lfloor>x\<rfloor>"
  by (simp add: py_int_def le_floor_iff)

lemma py_int_nonneg: "0 \<le> x \<Longrightarrow> py_int x = \<lfloor>x\<rfloor>"
  by (simp add: py_int_def)

lemma clip_lower0_max: "clip_lower0 x = max 0 x"
  by (simp add: clip_lower0_def max_def)

lemma irrigation_req_nonneg: "0 \<le> irrigation_req kc d"
  by (simp add: irrigation_req_def clip_lower0_def)

lemma compute_nth:
  "i < length df \<Longrightarrow> compute kc fs pc df ! i = balance kc fs pc (df ! i)"
  by (simp add: compute_def)

lemma length_compute: "length (compute kc fs pc df) = length df"
  by (simp add: compute_def)

lemma pump_hours_finite:
  "py_int pc \<noteq> 0 \<Longrightarrow>
   pump_hours kc fs pc d = Finite (total_liters kc fs d / (of_int (py_int pc) * 60))"
  by (simp add: pump_hours_def np_div_def)

lemma total_liters_scenario_A: "total_liters 1.1 1 scenario_A = 14164.01"
  by (simp add: total_liters_def irrigation_req_def crop_water_need_def clip_lower0_def
      scenario_A_def)

subsection \<open>The daily water balance\<close>




lemma engine_day_known:
  "Crop_Need_mm (engine_day kc t m r (Some e)) = Finite (e * kc)"
  "Irrigation_Needed_mm (engine_day kc t m (Some x) (Some e)) = Finite (max 0 (e * kc - x))"
  by (simp_all add: engine_day_def Let_def to_float_def clip_lower0_max)




subsection \<open>The pump capacity\<close>

lemma py_int_trunc:
  "(0 \<le> x \<longrightarrow> of_int (py_int x) \<le> x \<and> x < of_int (py_int x) + 1) \<and>
   (x < 0 \<longrightarrow> x \<le> of_int (py_int x) \<and> of_int (py_int x) - 1 < x)"
  by (simp add: py_int_def) linarith

lemma Pump_Hours_balance: "Pump_Hours (balance kc fs pc d) = pump_hours kc fs pc d"
  by (simp add: balance_def)

lemma Irrigation_Req_balance: "Irrigation_Req (balance kc fs pc d) = irrigation_req kc d"
  by (simp add: balance_def)

text \<open>
  Claim C9. The pump hours of a day are the volume divided by \<open>int(pump_capacity) * 60\<close>,
  where \<open>int\<close> truncates toward zero: the integer lies between zero and the capacity,
  less than one away from it. Hence two capacities with the same integer part give the
  same pump hours.
\<close>

theorem C9_capacity_truncated:
  "Pump_Hours (balance kc fs pc d)
     = np_div (total_liters kc fs d) (of_int (py_int pc * 60)) \<and>
   (0 \<le> pc \<longrightarrow> of_int (py_int pc) \<le> pc \<and> pc < of_int (py_int pc) + 1) \<and>
   (pc < 0 \<longrightarrow> pc \<le> of_int (py_int pc) \<and> of_int (py_int pc) - 1 < pc) \<and>
   (py_int pc = py_int pc' \<longrightarrow>
      Pump_Hours (balance kc fs pc d) = Pump_Hours (balance kc fs pc' d))"
  using py_int_trunc [of pc]
  by (simp add: Pump_Hours_balance pump_hours_def)

text \<open>
  At 200.1 and at 200.9 liters per minute the divisor is \<open>200 * 60\<close>, and not
  \<open>200.1 * 60\<close>; a negative capacity is truncated upwards.
\<close>

theorem C9_capacity_truncated_witness:
  "(0::real) \<le> 200.1 \<and> py_int 200.1 = 200 \<and> py_int 200.9 = 200 \<and>
   Pump_Hours (balance 1.1 1 200.1 scenario_A) = Pump_Hours (balance 1.1 1 200.9 scenario_A) \<and>
   Pump_Hours (balance 1.1 1 200.1 scenario_A) = Finite (14164.01 / (200 * 60)) \<and>
   Pump_Hours (balance 1.1 1 200.1 scenario_A) \<noteq> Finite (14164.01 / (200.1 * 60)) \<and>
   (- 200 :: real) < 0 \<and> py_int (- 200) = - 200"
proof -
  have c: "py_int (- 200) = - 200"
    using py_int_of_int [of "- 200"] by simp
  have e: "Pump_Hours (balance 1.1 1 200.9 scenario_A) = Finite (14164.01 / (200 * 60))"
    by (simp add: Pump_Hours_balance pump_hours_def np_div_def total_liters_scenario_A
        py_int_def)
  show ?thesis
    using C9_capacity_truncated [of "1.1" 1 "200.1" scenario_A "200.9"]
      C9_capacity_truncated [of "1.1" 1 "- 200" scenario_A "- 200"]
    unfolding e
    by (simp add: c total_liters_scenario_A np_div_def py_int_def)
qed

subsection \<open>Monotonicity of the balance\<close>

lemma total_liters_mono:
  "0 \<le> fs \<Longrightarrow> irrigation_req kc d \<le> irrigation_req kc' d' \<Longrightarrow>
   total_liters kc fs d \<le> total_liters kc' fs d'"
proof -
  assume fs: "0 \<le> fs" and "irrigation_req kc d \<le> irrigation_req kc' d'"
  then have "irrigation_req kc d * 4046.86 \<le> irrigation_req kc' d' * 4046.86"
    by simp
  from mult_right_mono [OF this fs] show ?thesis
    by (simp only: total_liters_def)
qed

lemma pump_hours_mono:
  assumes "1 \<le> pc" and "total_liters kc fs d \<le> total_liters kc' fs d'"
  shows "np_le (pump_hours kc fs pc d) (pump_hours kc' fs pc d')"
proof -
  from assms(1) have pos: "0 < real_of_int (py_int pc) * 60"
    using py_int_ge1 [of pc] by simp
  then have "py_int pc \<noteq> 0" by auto
  then show ?thesis
    using pos assms(2) by (simp add: pump_hours_finite divide_right_mono)
qed

lemma irrigation_req_mono_kc:
  "0 \<le> ETo d \<Longrightarrow> kc1 \<le> kc2 \<Longrightarrow> irrigation_req kc1 d \<le> irrigation_req kc2 d"
proof -
  assume "0 \<le> ETo d" "kc1 \<le> kc2"
  then have "ETo d * kc1 \<le> ETo d * kc2" by (simp add: mult_left_mono)
  then show ?thesis
    by (simp add: irrigation_req_def crop_water_need_def clip_lower0_def)
qed

lemma irrigation_req_mono_eto:
  "0 \<le> kc \<Longrightarrow> ETo d1 \<le> ETo d2 \<Longrightarrow> Rain d1 = Rain d2 \<Longrightarrow>
   irrigation_req kc d1 \<le> irrigation_req kc d2"
proof -
  assume "0 \<le> kc" "ETo d1 \<le> ETo d2" and r: "Rain d1 = Rain d2"
  then have "ETo d1 * kc \<le> ETo d2 * kc" by (simp add: mult_right_mono)
  then show ?thesis
    by (simp add: irrigation_req_def crop_water_need_def clip_lower0_def r)
qed

text \<open>
  Claim C10. For a field size that is not negative and a pump capacity \<open>n > 0\<close>, the
  irrigation need and the pump hours of a day do not decrease when \<open>kc\<close> grows, given
  \<open>eto_mm \<ge> 0\<close>, and do not decrease when \<open>eto_mm\<close> grows with the rain fixed, given
  \<open>kc \<ge> 0\<close>. The same holds of the irrigation need of the report script, for readings
  \<open>e\<close> and \<open>r\<close>.
\<close>

theorem C10_monotone:
  assumes "0 < n" and "0 \<le> fs"
  shows "(0 \<le> ETo d \<and> 0 \<le> kc1 \<and> kc1 \<le> kc2 \<longrightarrow>
       Irrigation_Req (balance kc1 fs (of_int n) d) \<le> Irrigation_Req (balance kc2 fs (of_int n) d) \<and>
       np_le (Pump_Hours (balance kc1 fs (of_int n) d)) (Pump_Hours (balance kc2 fs (of_int n) d))) \<and>
     (0 \<le> kc \<and> 0 \<le> ETo d1 \<and> ETo d1 \<le> ETo d2 \<and> Rain d1 = Rain d2 \<longrightarrow>
       Irrigation_Req (balance kc fs (of_int n) d1) \<le> Irrigation_Req (balance kc fs (of_int n) d2) \<and>
       np_le (Pump_Hours (balance kc fs (of_int n) d1)) (Pump_Hours (balance kc fs (of_int n) d2))) \<and>
     (0 \<le> e \<and> 0 \<le> kc1 \<and> kc1 \<le> kc2 \<longrightarrow>
       np_le (Irrigation_Needed_mm (engine_day kc1 t m (Some r) (Some e)))
         (Irrigation_Needed_mm (engine_day kc2 t m (Some r) (Some e)))) \<and>
     (0 \<le> kc \<and> 0 \<le> e1 \<and> e1 \<le> e2 \<longrightarrow>
       np_le (Irrigation_Needed_mm (engine_day kc t m (Some r) (Some e1)))
         (Irrigation_Needed_mm (engine_day kc t m (Some r) (Some e2))))"
proof -
  from assms(1) have pc: "1 \<le> real_of_int n"
    by simp
  have kc: "irrigation_req kc1 d \<le> irrigation_req kc2 d \<and>
      np_le (pump_hours kc1 fs (of_int n) d) (pump_hours kc2 fs (of_int n) d)"
    if "0 \<le> ETo d" and "kc1 \<le> kc2"
  proof -
    from that have le: "irrigation_req kc1 d \<le> irrigation_req kc2 d"
      by (rule irrigation_req_mono_kc)
    with assms(2) have "total_liters kc1 fs d \<le> total_liters kc2 fs d"
      by (rule total_liters_mono)
    with pc have "np_le (pump_hours kc1 fs (of_int n) d) (pump_hours kc2 fs (of_int n) d)"
      by (rule pump_hours_mono)
    with le show ?thesis by simp
  qed
  have eto: "irrigation_req kc d1 \<le> irrigation_req kc d2 \<and>
      np_le (pump_hours kc fs (of_int n) d1) (pump_hours kc fs (of_int n) d2)"
    if "0 \<le> kc" and "ETo d1 \<le> ETo d2" and "Rain d1 = Rain d2"
  proof -
    from that have le: "irrigation_req kc d1 \<le> irrigation_req kc d2"
      by (rule irrigation_req_mono_eto)
    with assms(2) have "total_liters kc fs d1 \<le> total_liters kc fs d2"
      by (rule total_liters_mono)
    with pc have "np_le (pump_hours kc fs (of_int n) d1) (pump_hours kc fs (of_int n) d2)"
      by (rule pump_hours_mono)
    with le show ?thesis by simp
  qed
  have ekc: "np_le (Irrigation_Needed_mm (engine_day kc1 t m (Some r) (Some e)))
         (Irrigation_Needed_mm (engine_day kc2 t m (Some r) (Some e)))"
    if "0 \<le> e" and "kc1 \<le> kc2"
  proof -
    from that have "e * kc1 \<le> e * kc2"
      by (simp add: mult_left_mono)
    then show ?thesis
      by (simp add: engine_day_known)
  qed
  have eeto: "np_le (Irrigation_Needed_mm (engine_day kc t m (Some r) (Some e1)))
         (Irrigation_Needed_mm (engine_day kc t m (Some r) (Some e2)))"
    if "0 \<le> kc" and "e1 \<le> e2"
  proof -
    from that have "e1 * kc \<le> e2 * kc"
      by (simp add: mult_right_mono)
    then show ?thesis
      by (simp add: engine_day_known)
  qed
  show ?thesis
    using kc eto ekc eeto by (simp add: Pump_Hours_balance Irrigation_Req_balance)
qed

text \<open>Scenario A against a smaller \<open>kc\<close>, and against a day with less evapotranspiration.\<close>

theorem C10_monotone_witness:
  "(0::int) < 200 \<and> (0::real) \<le> 1 \<and> 0 \<le> ETo scenario_A \<and> (0::real) \<le> 0.8 \<and> (0.8::real) \<le> 1.1 \<and>
   ETo scenario_B \<le> ETo scenario_A \<and> 0 \<le> ETo scenario_B \<and>
   Rain (scenario_B\<lparr>Rain := 2\<rparr>) = Rain scenario_A \<and>
   Irrigation_Req (balance 0.8 1 200 scenario_A) \<le> Irrigation_Req (balance 1.1 1 200 scenario_A) \<and>
   np_le (Pump_Hours (balance 0.8 1 200 scenario_A)) (Pump_Hours (balance 1.1 1 200 scenario_A)) \<and>
   Irrigation_Req (balance 1.1 1 200 (scenario_B\<lparr>Rain := 2\<rparr>))
     \<le> Irrigation_Req (balance 1.1 1 200 scenario_A) \<and>
   np_le (Pump_Hours (balance 1.1 1 200 (scenario_B\<lparr>Rain := 2\<rparr>)))
     (Pump_Hours (balance 1.1 1 200 scenario_A)) \<and>
   np_le (Irrigation_Needed_mm (engine_day 0.8 ''2025-01-03'' (Some 30) (Some 2) (Some 5)))
     (Irrigation_Needed_mm (engine_day 1.1 ''2025-01-03'' (Some 30) (Some 2) (Some 5))) \<and>
   np_le (Irrigation_Needed_mm (engine_day 1.1 ''2025-01-03'' (Some 30) (Some 2) (Some 3)))
     (Irrigation_Needed_mm (engine_day 1.1 ''2025-01-03'' (Some 30) (Some 2) (Some 5)))"
proof -
  have h: "(0::int) < 200" "(0::real) \<le> 1" by simp_all
  show ?thesis
    using C10_monotone [OF h, of scenario_A "0.8" "1.1" "1.1" "scenario_B\<lparr>Rain := 2\<rparr>" scenario_A
        5 "''2025-01-03''" "Some 30" 2 3 5]
    by (simp add: scenario_A_def scenario_B_def)
qed

subsection \<open>The pump runtime of the reference day\<close>

lemma summarize_finite:
  assumes "2 < length rows" and "Pump_Hours (rows ! 2) = Finite ph"
  shows "summarize rows =
    Inr \<lparr>today = rows ! 2, hrs = py_int ph, mins = py_int (frac ph * 60),
         status = (if 0 < Irrigation_Req (rows ! 2) then WATER_STRESS else ADEQUATE)\<rparr>"
  using assms by (simp add: summarize_def)

lemma summarize_not_finite:
  assumes "2 < length rows" and "Pump_Hours (rows ! 2) \<in> {Inf, NegInf, NaN}"
  shows "summarize rows \<in> {Inl OverflowError, Inl ValueError}"
  using assms by (auto simp: summarize_def)

lemma summarize_Inr_status:
  assumes "summarize rows = Inr s"
  shows "today s = rows ! 2 \<and>
    status s = (if 0 < Irrigation_Req (rows ! 2) then WATER_STRESS else ADEQUATE)"
  using assms
  by (auto simp: summarize_def Let_def split: if_splits sum.splits)

lemma minutes_range: "0 \<le> py_int (frac x * 60) \<and> py_int (frac x * 60) \<le> 59"
proof -
  have f: "0 \<le> frac x" "frac x < 1"
    by (simp_all add: frac_lt_1)
  then have "0 \<le> frac x * 60" "frac x * 60 < 60" by simp_all
  then show ?thesis
    by (simp add: py_int_def floor_less_iff[where z = 60, simplified] ) 
qed

lemma pump_hours_scenario_A:
  "Pump_Hours (balance 1.1 1 200 scenario_A) = Finite (14164.01 / 12000)"
  by (simp add: balance_def pump_hours_def np_div_def total_liters_scenario_A py_int_def)

lemma compute_three_days:
  "compute kc fs pc (three_days d) = [balance kc fs pc d, balance kc fs pc d, balance kc fs pc d]"
  by (simp add: compute_def three_days_def)

lemma hrs_scenario_A: "py_int (14164.01 / 12000) = 1"
  by (simp add: py_int_def)

lemma mins_scenario_A: "py_int (frac (14164.01 / 12000) * 60) = 10"
  by (simp add: py_int_def frac_def)

lemma irrigation_req_scenario_A: "irrigation_req 1.1 scenario_A = 3.5"
  by (simp add: irrigation_req_def crop_water_need_def clip_lower0_def scenario_A_def)

lemma summarize_scenario_A:
  "summarize (compute 1.1 1 200 (three_days scenario_A)) =
     Inr \<lparr>today = balance 1.1 1 200 scenario_A, hrs = 1, mins = 10, status = WATER_STRESS\<rparr>"
proof -
  let ?rows = "compute 1.1 1 200 (three_days scenario_A)"
  have l: "2 < length ?rows"
    by (simp add: compute_three_days)
  have t: "?rows ! 2 = balance 1.1 1 200 scenario_A"
    by (simp add: compute_three_days)
  have p: "Pump_Hours (?rows ! 2) = Finite (14164.01 / 12000)"
    by (simp only: t pump_hours_scenario_A)
  have i: "0 < Irrigation_Req (?rows ! 2)"
    by (simp add: t Irrigation_Req_balance irrigation_req_scenario_A)
  show ?thesis
    using summarize_finite [OF l p] i
    by (simp only: t hrs_scenario_A mins_scenario_A if_True)
qed

text \<open>
  Claim C2, as the code has it. When the pump hours of the reference day are a finite
  number, the runtime is shown as \<open>hrs = int(pump_hours)\<close> and
  \<open>mins = int((pump_hours % 1) * 60)\<close>: the minutes are cut off, not rounded, and lie
  between 0 and 59. For pump hours that are not negative, \<open>hrs\<close> is the floor of the pump
  hours and \<open>mins\<close> the floor of \<open>(pump_hours - hrs) * 60\<close>.
\<close>

theorem C2_pump_runtime:
  assumes "2 < length rows" and "Pump_Hours (rows ! 2) = Finite ph"
  shows "\<exists>s. summarize rows = Inr s \<and>
    hrs s = py_int ph \<and> mins s = \<lfloor>frac ph * 60\<rfloor> \<and> 0 \<le> mins s \<and> mins s \<le> 59 \<and>
    (0 \<le> ph \<longrightarrow> hrs s = \<lfloor>ph\<rfloor> \<and> mins s = \<lfloor>(ph - of_int (hrs s)) * 60\<rfloor>)"
proof -
  let ?s = "\<lparr>today = rows ! 2, hrs = py_int ph, mins = py_int (frac ph * 60),
         status = (if 0 < Irrigation_Req (rows ! 2) then WATER_STRESS else ADEQUATE)\<rparr>"
  have s: "summarize rows = Inr ?s"
    using assms by (rule summarize_finite)
  have "0 \<le> frac ph * 60" by simp
  then have m: "py_int (frac ph * 60) = \<lfloor>frac ph * 60\<rfloor>"
    by (rule py_int_nonneg)
  have r: "0 \<le> \<lfloor>frac ph * 60\<rfloor> \<and> \<lfloor>frac ph * 60\<rfloor> \<le> 59"
    using minutes_range [of ph] by (simp only: m)
  have f: "py_int ph = \<lfloor>ph\<rfloor> \<and> \<lfloor>frac ph * 60\<rfloor> = \<lfloor>(ph - of_int (py_int ph)) * 60\<rfloor>"
    if "0 \<le> ph"
    using py_int_nonneg [OF that] by (simp add: frac_def)
  show ?thesis
    using s m r f by auto
qed

text \<open>Scenario C: the pump runs \<open>14164.01 / 12000\<close> hours, shown as 1 hour 10 minutes.\<close>

theorem C2_pump_runtime_witness:
  "2 < length (compute 1.1 1 200 (three_days scenario_A)) \<and>
   Pump_Hours (compute 1.1 1 200 (three_days scenario_A) ! 2) = Finite (14164.01 / 12000) \<and>
   (0::real) \<le> 14164.01 / 12000 \<and>
   (\<exists>s. summarize (compute 1.1 1 200 (three_days scenario_A)) = Inr s \<and>
        hrs s = 1 \<and> mins s = 10)"
proof -
  let ?rows = "compute 1.1 1 200 (three_days scenario_A)"
  have l: "2 < length ?rows"
    by (simp add: compute_three_days)
  have p: "Pump_Hours (?rows ! 2) = Finite (14164.01 / 12000)"
    by (simp add: compute_three_days pump_hours_scenario_A)
  have m: "\<lfloor>frac (14164.01 / 12000 :: real) * 60\<rfloor> = 10"
    by (simp add: frac_def)
  from C2_pump_runtime [OF l p] obtain s where
    "summarize ?rows = Inr s" "hrs s = py_int (14164.01 / 12000)"
    "mins s = \<lfloor>frac (14164.01 / 12000 :: real) * 60\<rfloor>"
    by blast
  then have "summarize ?rows = Inr s \<and> hrs s = 1 \<and> mins s = 10"
    by (simp only: hrs_scenario_A m)
  then show ?thesis
    using l p by (intro conjI exI [of _ s]) simp_all
qed

text \<open>
  The claim as written rounds the minutes to the nearest integer and reports scenario C as
  1 hour 11 minutes. The code shows 1 hour 10 minutes: the rounded value is 11.
\<close>

theorem C2_minutes_counterexample:
  "summarize (compute 1.1 1 200 (three_days scenario_A)) =
     Inr \<lparr>today = balance 1.1 1 200 scenario_A, hrs = 1, mins = 10, status = WATER_STRESS\<rparr> \<and>
   Pump_Hours (balance 1.1 1 200 scenario_A) = Finite (14164.01 / 12000) \<and>
   round ((14164.01 / 12000 - of_int \<lfloor>14164.01 / 12000 :: real\<rfloor>) * 60 :: real) = 11"
proof -
  have "round ((14164.01 / 12000 - of_int \<lfloor>14164.01 / 12000 :: real\<rfloor>) * 60 :: real) = 11"
    by (simp add: round_def)
  then show ?thesis
    by (simp only: summarize_scenario_A pump_hours_scenario_A simp_thms)
qed

subsection \<open>The status of the reference day\<close>

lemma irrigation_req_scenario_B: "irrigation_req 0.8 scenario_B = 0"
  by (simp add: irrigation_req_def crop_water_need_def clip_lower0_def scenario_B_def)

lemma run_audit_Report:
  assumes "run_audit kc fs pc df = Report rows s"
  shows "rows = compute kc fs pc df \<and> summarize rows = Inr s"
  using assms by (auto simp: run_audit_def Let_def split: if_splits sum.splits)

lemma run_audit_summarize:
  assumes "df \<noteq> []" and "summarize (compute kc fs pc df) = Inr s"
  shows "run_audit kc fs pc df = Report (compute kc fs pc df) s"
  using assms by (simp add: run_audit_def)

lemma run_audit_error:
  assumes "df \<noteq> []" and "summarize (compute kc fs pc df) = Inl e"
  shows "run_audit kc fs pc df = Calculation_Error e (compute kc fs pc df)"
  using assms by (simp add: run_audit_def)

text \<open>
  Claim C3. Whenever the audit reports a summary, its reference day is row 2 of the
  computed balance, and the status is WATER_STRESS if that day's irrigation need is
  positive and ADEQUATE otherwise. A summary is reported whenever the series has at least
  three days and the integer part of the pump capacity is not zero.
\<close>

theorem C3_status:
  "(run_audit kc fs pc df = Report rows s \<longrightarrow>
      rows = compute kc fs pc df \<and> today s = rows ! 2 \<and>
      (status s = WATER_STRESS \<longleftrightarrow> 0 < Irrigation_Req (today s)) \<and>
      (status s = ADEQUATE \<longleftrightarrow> \<not> 0 < Irrigation_Req (today s))) \<and>
   (2 < length df \<and> py_int pc \<noteq> 0 \<longrightarrow>
      (\<exists>s'. run_audit kc fs pc df = Report (compute kc fs pc df) s'))"
proof -
  have a: "rows = compute kc fs pc df \<and> today s = rows ! 2 \<and>
      (status s = WATER_STRESS \<longleftrightarrow> 0 < Irrigation_Req (today s)) \<and>
      (status s = ADEQUATE \<longleftrightarrow> \<not> 0 < Irrigation_Req (today s))"
    if r: "run_audit kc fs pc df = Report rows s"
  proof -
    from run_audit_Report [OF r] have c: "rows = compute kc fs pc df"
      and "summarize rows = Inr s" by blast+
    from summarize_Inr_status [OF this(2)] show ?thesis
      using c by simp
  qed
  have b: "\<exists>s'. run_audit kc fs pc df = Report (compute kc fs pc df) s'"
    if l: "2 < length df" and p: "py_int pc \<noteq> 0"
  proof -
    let ?rows = "compute kc fs pc df"
    have l': "2 < length ?rows"
      using l by (simp add: length_compute)
    have "Pump_Hours (?rows ! 2) = pump_hours kc fs pc (df ! 2)"
      using l by (simp add: compute_nth Pump_Hours_balance)
    then have "Pump_Hours (?rows ! 2)
        = Finite (total_liters kc fs (df ! 2) / (of_int (py_int pc) * 60))"
      using pump_hours_finite [OF p] by simp
    from summarize_finite [OF l' this] obtain s' where "summarize ?rows = Inr s'"
      by blast
    moreover from l have "df \<noteq> []" by auto
    ultimately have "run_audit kc fs pc df = Report ?rows s'"
      by (simp add: run_audit_summarize)
    then show ?thesis ..
  qed
  show ?thesis
    using a b by blast
qed

text \<open>Scenario B: the crop needs 2.4 mm, 10 mm of rain fell, and the status is ADEQUATE.\<close>

theorem C3_status_witness:
  "2 < length (three_days scenario_B) \<and> py_int 200 \<noteq> 0 \<and>
   Crop_Water_Need (balance 0.8 1 200 scenario_B) = 2.4 \<and>
   Irrigation_Req (balance 0.8 1 200 scenario_B) = 0 \<and>
   (\<exists>s. run_audit 0.8 1 200 (three_days scenario_B)
          = Report (compute 0.8 1 200 (three_days scenario_B)) s \<and>
        today s = balance 0.8 1 200 scenario_B \<and> status s = ADEQUATE)"
proof -
  let ?df = "three_days scenario_B"
  have l: "2 < length ?df"
    by (simp add: three_days_def)
  have p: "py_int 200 \<noteq> 0"
    using py_int_of_int [of 200] by simp
  have n: "Crop_Water_Need (balance 0.8 1 200 scenario_B) = 2.4"
    by (simp add: balance_def crop_water_need_def scenario_B_def)
  have i: "Irrigation_Req (balance 0.8 1 200 scenario_B) = 0"
    by (simp only: Irrigation_Req_balance irrigation_req_scenario_B)
  from C3_status [of "0.8" 1 200 ?df] l p obtain s where
    r: "run_audit 0.8 1 200 ?df = Report (compute 0.8 1 200 ?df) s"
    by blast
  from C3_status [of "0.8" 1 200 ?df "compute 0.8 1 200 ?df" s] r
  have t: "today s = compute 0.8 1 200 ?df ! 2"
    and a: "status s = ADEQUATE \<longleftrightarrow> \<not> 0 < Irrigation_Req (today s)"
    by blast+
  have t': "today s = balance 0.8 1 200 scenario_B"
    by (simp add: t compute_three_days)
  have "status s = ADEQUATE"
    unfolding a t' i by simp
  with r t' have "\<exists>s. run_audit 0.8 1 200 ?df = Report (compute 0.8 1 200 ?df) s \<and>
        today s = balance 0.8 1 200 scenario_B \<and> status s = ADEQUATE"
    by blast
  with l p n i show ?thesis
    by (intro conjI)
qed

subsection \<open>A pump capacity that is not positive\<close>

lemma py_int_zero_iff: "py_int x = 0 \<longleftrightarrow> - 1 < x \<and> x < 1"
  by (simp add: py_int_def floor_eq_iff ceiling_eq_iff)

lemma pump_hours_zero_capacity:
  "py_int pc = 0 \<Longrightarrow> pump_hours kc fs pc d \<in> {Inf, NegInf, NaN}"
  by (simp add: pump_hours_def np_div_def)

lemma py_int_le_minus1: "x \<le> - 1 \<Longrightarrow> py_int x \<le> - 1"
  by (simp add: py_int_def ceiling_le_iff)

text \<open>
  Claim C8, as the code has it. Let the series have at least three days. If the integer
  part of the pump capacity is zero (a capacity strictly between -1 and 1, zero among
  them), the computation raises nothing: the pump hours of every day are an infinity or
  NaN. The audit fails afterwards, when \<open>int\<close> is applied to the pump hours of the
  reference day, with OverflowError or ValueError, and shows no status. If the pump
  capacity is at most -1, nothing fails: a summary is reported, with finite pump hours
  that are not positive when the field size is not negative.
\<close>

theorem C8_nonpositive_capacity:
  assumes "2 < length df"
  shows "(- 1 < pc \<and> pc < 1 \<longrightarrow>
       py_int pc = 0 \<and>
       (\<forall>i<length df. Pump_Hours (compute kc fs pc df ! i) \<in> {Inf, NegInf, NaN}) \<and>
       (\<exists>e\<in>{OverflowError, ValueError}.
          run_audit kc fs pc df = Calculation_Error e (compute kc fs pc df))) \<and>
     (pc \<le> - 1 \<longrightarrow>
       (\<exists>s x. run_audit kc fs pc df = Report (compute kc fs pc df) s \<and>
          Pump_Hours (today s) = Finite x \<and> (0 \<le> fs \<longrightarrow> x \<le> 0)))"
proof -
  let ?rows = "compute kc fs pc df"
  from assms have ne: "df \<noteq> []" by auto
  have l: "2 < length ?rows"
    using assms by (simp add: length_compute)
  have t: "Pump_Hours (?rows ! 2) = pump_hours kc fs pc (df ! 2)"
    using assms by (simp add: compute_nth Pump_Hours_balance)
  have zero: "py_int pc = 0 \<and>
       (\<forall>i<length df. Pump_Hours (?rows ! i) \<in> {Inf, NegInf, NaN}) \<and>
       (\<exists>e\<in>{OverflowError, ValueError}. run_audit kc fs pc df = Calculation_Error e ?rows)"
    if "- 1 < pc" and "pc < 1"
  proof -
    from that have z: "py_int pc = 0"
      by (simp add: py_int_zero_iff)
    have all: "\<forall>i<length df. Pump_Hours (?rows ! i) \<in> {Inf, NegInf, NaN}"
      using pump_hours_zero_capacity [OF z] by (simp add: compute_nth Pump_Hours_balance)
    with assms have "Pump_Hours (?rows ! 2) \<in> {Inf, NegInf, NaN}"
      by blast
    from summarize_not_finite [OF l this] obtain e
      where "e \<in> {OverflowError, ValueError}" and "summarize ?rows = Inl e"
      by auto
    with ne have "\<exists>e\<in>{OverflowError, ValueError}. run_audit kc fs pc df = Calculation_Error e ?rows"
      using run_audit_error by blast
    with z all show ?thesis by blast
  qed
  have neg: "\<exists>s x. run_audit kc fs pc df = Report ?rows s \<and>
          Pump_Hours (today s) = Finite x \<and> (0 \<le> fs \<longrightarrow> x \<le> 0)"
    if "pc \<le> - 1"
  proof -
    from that have p: "py_int pc \<le> - 1"
      by (rule py_int_le_minus1)
    then have p0: "py_int pc \<noteq> 0" by simp
    let ?x = "total_liters kc fs (df ! 2) / (of_int (py_int pc) * 60)"
    have f: "Pump_Hours (?rows ! 2) = Finite ?x"
      using pump_hours_finite [OF p0] t by simp
    from summarize_finite [OF l f] obtain s where s: "summarize ?rows = Inr s"
      and ts: "today s = ?rows ! 2"
      by simp
    have r: "run_audit kc fs pc df = Report ?rows s"
      using ne s by (rule run_audit_summarize)
    have sign: "?x \<le> 0" if "0 \<le> fs"
    proof -
      from that have "0 \<le> total_liters kc fs (df ! 2)"
        by (simp add: total_liters_def irrigation_req_nonneg)
      moreover from p have "real_of_int (py_int pc) * 60 < 0"
        by simp
      ultimately show ?thesis
        by (simp add: divide_nonneg_neg)
    qed
    from r f ts sign show ?thesis
      by auto
  qed
  show ?thesis
    using zero neg by blast
qed

lemma run_audit_zero_capacity:
  "run_audit 1.1 1 0 (three_days scenario_A)
     = Calculation_Error OverflowError (compute 1.1 1 0 (three_days scenario_A))"
proof -
  have "Pump_Hours (balance 1.1 1 0 scenario_A) = Inf"
    by (simp add: Pump_Hours_balance pump_hours_def np_div_def total_liters_scenario_A
        py_int_def)
  then have "summarize (compute 1.1 1 0 (three_days scenario_A)) = Inl OverflowError"
    by (simp add: summarize_def compute_three_days)
  then show ?thesis
    by (simp add: run_audit_def three_days_def)
qed

lemma run_audit_negative_capacity:
  "run_audit 1.1 1 (- 200) (three_days scenario_A)
     = Report (compute 1.1 1 (- 200) (three_days scenario_A))
         \<lparr>today = balance 1.1 1 (- 200) scenario_A, hrs = - 1, mins = 49,
          status = WATER_STRESS\<rparr>"
proof -
  let ?rows = "compute 1.1 1 (- 200) (three_days scenario_A)"
  have l: "2 < length ?rows"
    by (simp add: compute_three_days)
  have t: "?rows ! 2 = balance 1.1 1 (- 200) scenario_A"
    by (simp add: compute_three_days)
  have p: "Pump_Hours (?rows ! 2) = Finite (- (14164.01 / 12000))"
    by (simp add: t Pump_Hours_balance pump_hours_def np_div_def total_liters_scenario_A
        py_int_def)
  have h: "py_int (- (14164.01 / 12000)) = - 1"
    by (simp add: py_int_def ceiling_eq_iff)
  have m: "py_int (frac (- (14164.01 / 12000)) * 60) = 49"
    by (simp add: py_int_def frac_def floor_eq_iff)
  have i: "0 < Irrigation_Req (?rows ! 2)"
    by (simp add: t Irrigation_Req_balance irrigation_req_scenario_A)
  have "summarize ?rows = Inr \<lparr>today = balance 1.1 1 (- 200) scenario_A, hrs = - 1,
      mins = 49, status = WATER_STRESS\<rparr>"
    using summarize_finite [OF l p] i by (simp only: t h m if_True)
  then show ?thesis
    by (simp add: run_audit_def three_days_def)
qed

text \<open>Scenario A with a pump capacity of 0 and of -200 liters per minute.\<close>

theorem C8_nonpositive_capacity_witness:
  "2 < length (three_days scenario_A) \<and> (- 1 :: real) < 0 \<and> (0::real) < 1 \<and>
   (- 200 :: real) \<le> - 1 \<and> (0::real) \<le> 1 \<and> py_int 0 = 0 \<and>
   Pump_Hours (compute 1.1 1 0 (three_days scenario_A) ! 2) \<in> {Inf, NegInf, NaN} \<and>
   (\<exists>e. run_audit 1.1 1 0 (three_days scenario_A)
        = Calculation_Error e (compute 1.1 1 0 (three_days scenario_A))) \<and>
   (\<exists>s x. run_audit 1.1 1 (- 200) (three_days scenario_A)
          = Report (compute 1.1 1 (- 200) (three_days scenario_A)) s \<and>
        Pump_Hours (today s) = Finite x \<and> x \<le> 0)"
proof -
  have l: "2 < length (three_days scenario_A)"
    by (simp add: three_days_def)
  from C8_nonpositive_capacity [OF l, of 0 "1.1" 1]
  have z: "py_int 0 = 0"
    and a: "\<forall>i<length (three_days scenario_A).
      Pump_Hours (compute 1.1 1 0 (three_days scenario_A) ! i) \<in> {Inf, NegInf, NaN}"
    and e: "\<exists>e. run_audit 1.1 1 0 (three_days scenario_A)
        = Calculation_Error e (compute 1.1 1 0 (three_days scenario_A))"
    by auto
  from a l have a2: "Pump_Hours (compute 1.1 1 0 (three_days scenario_A) ! 2) \<in> {Inf, NegInf, NaN}"
    by blast
  from C8_nonpositive_capacity [OF l, of "- 200" "1.1" 1]
  have n: "\<exists>s x. run_audit 1.1 1 (- 200) (three_days scenario_A)
          = Report (compute 1.1 1 (- 200) (three_days scenario_A)) s \<and>
        Pump_Hours (today s) = Finite x \<and> x \<le> 0"
    by simp
  from l z a2 e n show ?thesis
    by simp
qed

text \<open>
  The claim as written wants an InvalidConfigError and no infinite result. With a pump
  capacity of zero the pump hours of scenario A are computed as infinite and the audit
  stops with OverflowError; with a capacity of -200 the audit reports a runtime of
  \<open>-1h 49m\<close> and no error at all.
\<close>

theorem C8_no_config_error_counterexample:
  "Pump_Hours (balance 1.1 1 0 scenario_A) = Inf \<and>
   run_audit 1.1 1 0 (three_days scenario_A)
     = Calculation_Error OverflowError (compute 1.1 1 0 (three_days scenario_A)) \<and>
   run_audit 1.1 1 (- 200) (three_days scenario_A)
     = Report (compute 1.1 1 (- 200) (three_days scenario_A))
         \<lparr>today = balance 1.1 1 (- 200) scenario_A, hrs = - 1, mins = 49,
          status = WATER_STRESS\<rparr>"
proof -
  have "Pump_Hours (balance 1.1 1 0 scenario_A) = Inf"
    by (simp add: Pump_Hours_balance pump_hours_def np_div_def total_liters_scenario_A
        py_int_def)
  then show ?thesis
    by (simp only: run_audit_zero_capacity run_audit_negative_capacity simp_thms)
qed

subsection \<open>The retry loop\<close>

lemma range3: "[0..<3] = [0, 1, 2]"
  by (simp add: upt_rec)

lemma fetch_cases:
  "get_weather_data_safe net \<in>
     {(fst (get_weather_data_safe net), \<lparr>slept = [], requests = 1, advisory = False\<rparr>),
      (fst (get_weather_data_safe net), \<lparr>slept = [1], requests = 2, advisory = False\<rparr>),
      (fst (get_weather_data_safe net), \<lparr>slept = [1, 2], requests = 3, advisory = False\<rparr>),
      (Inr [], \<lparr>slept = [1, 2, 4], requests = 3, advisory = True\<rparr>)}"
  by (simp add: get_weather_data_safe_def range3 no_effects_def Let_def
      split: sum.split error.split)

lemma fetch_two_failures:
  assumes "attempt_once (net 0) = Inl RequestException"
    and "attempt_once (net 1) = Inl RequestException"
    and "attempt_once (net 2) = Inr df"
  shows "get_weather_data_safe net = (Inr df, \<lparr>slept = [1, 2], requests = 3, advisory = False\<rparr>)"
  using assms
  by (simp add: get_weather_data_safe_def range3 no_effects_def Let_def)

lemma fetch_three_failures:
  assumes "attempt_once (net 0) = Inl RequestException"
    and "attempt_once (net 1) = Inl RequestException"
    and "attempt_once (net 2) = Inl RequestException"
  shows "get_weather_data_safe net = (Inr [], \<lparr>slept = [1, 2, 4], requests = 3, advisory = True\<rparr>)"
  using assms
  by (simp add: get_weather_data_safe_def range3 no_effects_def Let_def)

lemma fetch_first_transient:
  assumes "attempt_once (net 0) = Inl RequestException"
  shows "take 1 (slept (snd (get_weather_data_safe net))) = [1] \<and>
    2 \<le> requests (snd (get_weather_data_safe net))"
  using assms
  by (simp add: get_weather_data_safe_def range3 no_effects_def Let_def
      split: sum.split error.split)

lemma fetch_first_hard:
  assumes "attempt_once (net 0) = Inl e" and "e \<noteq> RequestException"
  shows "get_weather_data_safe net = (Inl e, \<lparr>slept = [], requests = 1, advisory = False\<rparr>)"
  using assms
  by (cases e) (simp_all add: get_weather_data_safe_def range3 no_effects_def Let_def)

text \<open>
  Claim C4. A request that times out or fails to connect, and a response with status 429,
  raise RequestException. The fetch sends at most three requests, and the delays it has
  slept are the first ones of 1, 2 and 4 seconds, one after each failed request. A first
  request that fails so is followed by a delay of 1 second and a second request. When the
  first two requests fail so and the third succeeds, the fetch returns the data of the
  third after exactly the delays 1 and 2 and shows no advisory.
\<close>

theorem C4_retry_backoff:
  "attempt_once NoResponse = Inl RequestException \<and>
   attempt_once (Response 429 body) = Inl RequestException \<and>
   requests (snd (get_weather_data_safe net)) \<le> 3 \<and>
   slept (snd (get_weather_data_safe net))
     = map (\<lambda>attempt. 2 ^ attempt) [0..<length (slept (snd (get_weather_data_safe net)))] \<and>
   length (slept (snd (get_weather_data_safe net))) \<le> 3 \<and>
   (attempt_once (net 0) = Inl RequestException \<longrightarrow>
      take 1 (slept (snd (get_weather_data_safe net))) = [1] \<and>
      2 \<le> requests (snd (get_weather_data_safe net))) \<and>
   (attempt_once (net 0) = Inl RequestException \<and>
    attempt_once (net 1) = Inl RequestException \<and>
    attempt_once (net 2) = Inr df \<longrightarrow>
      get_weather_data_safe net
        = (Inr df, \<lparr>slept = [1, 2], requests = 3, advisory = False\<rparr>))"
proof -
  let ?fx = "snd (get_weather_data_safe net)"
  from fetch_cases [of net] have
    "?fx = \<lparr>slept = [], requests = 1, advisory = False\<rparr> \<or>
     ?fx = \<lparr>slept = [1], requests = 2, advisory = False\<rparr> \<or>
     ?fx = \<lparr>slept = [1, 2], requests = 3, advisory = False\<rparr> \<or>
     ?fx = \<lparr>slept = [1, 2, 4], requests = 3, advisory = True\<rparr>"
    by (metis insertE singletonD snd_conv)
  then have bound: "requests ?fx \<le> 3 \<and> length (slept ?fx) \<le> 3 \<and>
      slept ?fx = map (\<lambda>attempt. 2 ^ attempt) [0..<length (slept ?fx)]"
    by (elim disjE) (simp_all add: upt_rec)
  show ?thesis
    using bound fetch_first_transient [of net] fetch_two_failures [of net df]
    by simp
qed

lemma attempt_once_third_time:
  "attempt_once (net_third_time 0) = Inl RequestException"
  "attempt_once (net_third_time 1) = Inl RequestException"
  "attempt_once (net_third_time 2) = Inr [scenario_A]"
  by (simp_all add: net_third_time_def clean_ETo_def clean_Rain_def interpolate_def
      fillna_def scenario_A_def)

text \<open>A timeout, then status 429, then the data of scenario A.\<close>

theorem C4_retry_backoff_witness:
  "attempt_once (net_third_time 0) = Inl RequestException \<and>
   attempt_once (net_third_time 1) = Inl RequestException \<and>
   attempt_once (net_third_time 2) = Inr [scenario_A] \<and>
   get_weather_data_safe net_third_time
     = (Inr [scenario_A], \<lparr>slept = [1, 2], requests = 3, advisory = False\<rparr>)"
  using C4_retry_backoff [of MissingKeys net_third_time "[scenario_A]"]
  by (simp only: attempt_once_third_time simp_thms)

subsection \<open>Errors that are not retried\<close>

text \<open>
  What the fetch does on a response that is JSON of the wrong shape: the exception leaves
  the function at once, after one request and without a delay.
\<close>

lemma fetch_wrong_shape:
  "get_weather_data_safe net_malformed
     = (Inl KeyError, \<lparr>slept = [], requests = 1, advisory = False\<rparr>)"
  "get_weather_data_safe net_ragged
     = (Inl ValueError, \<lparr>slept = [], requests = 1, advisory = False\<rparr>)"
proof -
  have "attempt_once (net_malformed 0) = Inl KeyError"
    by (simp add: net_malformed_def)
  then show "get_weather_data_safe net_malformed
     = (Inl KeyError, \<lparr>slept = [], requests = 1, advisory = False\<rparr>)"
    by (rule fetch_first_hard) simp
  have "attempt_once (net_ragged 0) = Inl ValueError"
    by (simp add: net_ragged_def)
  then show "get_weather_data_safe net_ragged
     = (Inl ValueError, \<lparr>slept = [], requests = 1, advisory = False\<rparr>)"
    by (rule fetch_first_hard) simp
qed

text \<open>
  Claim C5 fails on the code. A status 404, which is no rate limit, and a body that is not
  JSON both raise a RequestException, and line 114 catches every RequestException: the
  provider is asked three times, with delays of 1, 2 and 4 seconds, and the fetch returns
  the empty data frame with the advisory instead of failing. The comments of lines 92 and
  115 name a 429 and a connection error as the cases to retry.
\<close>

theorem C5_client_error_retried:
  "attempt_once (net_not_found 0) = Inl RequestException \<and>
   get_weather_data_safe net_not_found
     = (Inr [], \<lparr>slept = [1, 2, 4], requests = 3, advisory = True\<rparr>) \<and>
   attempt_once (net_not_json 0) = Inl RequestException \<and>
   get_weather_data_safe net_not_json
     = (Inr [], \<lparr>slept = [1, 2, 4], requests = 3, advisory = True\<rparr>)"
proof -
  have a: "attempt_once (net_not_found i) = Inl RequestException" for i
    by (simp add: net_not_found_def)
  have b: "attempt_once (net_not_json i) = Inl RequestException" for i
    by (simp add: net_not_json_def)
  show ?thesis
    by (simp add: a b fetch_three_failures)
qed

subsection \<open>The provider stays unavailable\<close>

lemma run_audit_Suppressed: "run_audit kc fs pc df = Suppressed \<longleftrightarrow> df = []"
  by (simp add: run_audit_def Let_def split: sum.split)

text \<open>
  Claim C6. When all three requests raise RequestException, the fetch raises nothing: it
  returns the empty data frame, after three requests and with the advisory shown. On the
  empty data frame, and only on it, the audit computes nothing, so the run of the button
  ends with neither balance rows nor a summary nor a status.
\<close>

theorem C6_unavailable:
  "(attempt_once (net 0) = Inl RequestException \<and>
    attempt_once (net 1) = Inl RequestException \<and>
    attempt_once (net 2) = Inl RequestException \<longrightarrow>
      get_weather_data_safe net
        = (Inr [], \<lparr>slept = [1, 2, 4], requests = 3, advisory = True\<rparr>) \<and>
      audit_button net kc fs pc = Inr Suppressed) \<and>
   (run_audit kc fs pc df = Suppressed \<longleftrightarrow> df = []) \<and>
   (df = [] \<longrightarrow>
      (\<forall>rows s. run_audit kc fs pc df \<noteq> Report rows s) \<and>
      (\<forall>e rows. run_audit kc fs pc df \<noteq> Calculation_Error e rows))"
proof -
  have a: "get_weather_data_safe net
        = (Inr [], \<lparr>slept = [1, 2, 4], requests = 3, advisory = True\<rparr>) \<and>
      audit_button net kc fs pc = Inr Suppressed"
    if "attempt_once (net 0) = Inl RequestException"
      and "attempt_once (net 1) = Inl RequestException"
      and "attempt_once (net 2) = Inl RequestException"
  proof -
    from that have f: "get_weather_data_safe net
        = (Inr [], \<lparr>slept = [1, 2, 4], requests = 3, advisory = True\<rparr>)"
      by (rule fetch_three_failures)
    then show ?thesis
      by (simp add: audit_button_def run_audit_def)
  qed
  have b: "run_audit kc fs pc df = Suppressed \<longleftrightarrow> df = []"
    by (rule run_audit_Suppressed)
  have c: "(\<forall>rows s. run_audit kc fs pc df \<noteq> Report rows s) \<and>
      (\<forall>e rows. run_audit kc fs pc df \<noteq> Calculation_Error e rows)"
    if "df = []"
    using that by (simp add: run_audit_def)
  show ?thesis
    using a b c by blast
qed

text \<open>The provider is down at every attempt.\<close>

theorem C6_unavailable_witness:
  "attempt_once (net_down 0) = Inl RequestException \<and>
   attempt_once (net_down 1) = Inl RequestException \<and>
   attempt_once (net_down 2) = Inl RequestException \<and>
   get_weather_data_safe net_down
     = (Inr [], \<lparr>slept = [1, 2, 4], requests = 3, advisory = True\<rparr>) \<and>
   audit_button net_down 1.1 1 200 = Inr Suppressed \<and>
   run_audit 1.1 1 200 [] = Suppressed"
proof -
  have d: "attempt_once (net_down i) = Inl RequestException" for i
    by (simp add: net_down_def)
  show ?thesis
    using C6_unavailable [of net_down "1.1" 1 200 "[]"]
    by (simp add: d)
qed

subsection \<open>Cleaning the weather series\<close>

lemma length_interpolate_from: "length (interpolate_from st xs) = length xs"
  by (induction st xs rule: interpolate_from.induct) simp_all

lemma next_known_replicate: "next_known (replicate k None @ ys) = next_known ys"
  by (induction k) simp_all

lemma takeWhile_missing_replicate:
  "takeWhile (\<lambda>x. x = None) (replicate k None @ Some b # ys) = replicate k None"
  by (induction k) simp_all

lemma next_known_mem: "next_known xs = Some b \<Longrightarrow> Some b \<in> set xs"
  by (induction xs rule: next_known.induct) simp_all

lemma next_known_cut: "next_known (xs @ Some a # rest) = next_known (xs @ [Some a])"
  by (induction xs rule: next_known.induct) simp_all

lemma takeWhile_missing_cut:
  "takeWhile (\<lambda>x. x = None) (xs @ Some a # rest) = takeWhile (\<lambda>x. x = None) (xs @ [Some a])"
  by (induction xs) simp_all

lemma interpolate_from_cut:
  "interpolate_from st (pre @ Some a # rest)
     = interpolate_from st (pre @ [Some a]) @ interpolate_from (Some (a, 0)) rest"
proof (induction st pre rule: interpolate_from.induct)
  case (4 a' j xs)
  then show ?case
    by (simp add: next_known_cut [of xs a rest] takeWhile_missing_cut [of xs a rest]
        split: option.split)
qed simp_all

lemma interpolate_from_gap:
  "i < k \<Longrightarrow>
   interpolate_from (Some (a, j)) (replicate k None @ Some b # post) ! i
     = Some (a + (b - a) * real (j + 1 + i) / real (j + k + 1))"
proof (induction k arbitrary: i j)
  case 0
  then show ?case by simp
next
  case (Suc k)
  show ?case
  proof (cases i)
    case 0
    then show ?thesis
      by (simp add: next_known_replicate takeWhile_missing_replicate)
  next
    case (Suc i')
    with Suc.prems have "i' < k" by simp
    from Suc.IH [OF this, of "j + 1"] show ?thesis
      by (simp add: Suc add.commute add.left_commute)
  qed
qed

lemma interpolate_from_trailing:
  "i < k \<Longrightarrow> interpolate_from (Some (a, j)) (replicate k None) ! i = Some a"
proof (induction k arbitrary: i j)
  case 0
  then show ?case by simp
next
  case (Suc k)
  have n: "next_known (replicate k None) = None"
    using next_known_replicate [of k "[]"] by simp
  show ?case
  proof (cases i)
    case 0
    then show ?thesis by (simp add: n)
  next
    case (Suc i')
    with Suc.prems have "i' < k" by simp
    from Suc.IH [OF this, of "j + 1"] show ?thesis
      by (simp add: Suc)
  qed
qed

lemma interpolate_from_leading:
  "interpolate_from None (replicate k None @ rest)
     = replicate k None @ interpolate_from None rest"
  by (induction k) simp_all

lemma interpolate_from_known:
  "i < length xs \<Longrightarrow> xs ! i = Some v \<Longrightarrow> interpolate_from st xs ! i = Some v"
proof (induction st xs arbitrary: i rule: interpolate_from.induct)
  case (1 st)
  then show ?case by simp
next
  case (2 st w xs)
  then show ?case by (cases i) simp_all
next
  case (3 xs)
  then show ?case by (cases i) simp_all
next
  case (4 a j xs)
  then show ?case by (cases i) simp_all
qed

lemma convex_nonneg:
  fixes a b :: real
  assumes "0 \<le> a" and "0 \<le> b" and "m \<le> n" and "0 < n"
  shows "0 \<le> a + (b - a) * real m / real n"
proof -
  have "a + (b - a) * real m / real n = (a * real (n - m) + b * real m) / real n"
    using assms(3,4) by (simp add: field_simps of_nat_diff)
  moreover have "0 \<le> (a * real (n - m) + b * real m) / real n"
    using assms(1,2) by simp
  ultimately show ?thesis by simp
qed

lemma interpolate_from_nonneg:
  assumes "\<forall>v. Some v \<in> set xs \<longrightarrow> 0 \<le> v"
    and "\<forall>a j. st = Some (a, j) \<longrightarrow> 0 \<le> a"
  shows "\<forall>v. Some v \<in> set (interpolate_from st xs) \<longrightarrow> 0 \<le> v"
  using assms
proof (induction st xs rule: interpolate_from.induct)
  case (4 a j xs)
  have a: "0 \<le> a" using "4.prems"(2) by simp
  have tail: "\<forall>v. Some v \<in> set (interpolate_from (Some (a, j + 1)) xs) \<longrightarrow> 0 \<le> v"
    using "4.IH" "4.prems" by simp
  have head: "0 \<le> a + (b - a) * real (j + 1)
      / real (j + 2 + length (takeWhile (\<lambda>x. x = None) xs))"
    if "next_known xs = Some b" for b
  proof -
    from next_known_mem [OF that] "4.prems"(1) have "0 \<le> b" by simp
    with a show ?thesis by (intro convex_nonneg) simp_all
  qed
  show ?case
    using a tail head by (auto split: option.splits)
qed auto

lemma fillna_nth:
  "i < length xs \<Longrightarrow> fillna c xs ! i = (case xs ! i of None \<Rightarrow> c | Some v \<Rightarrow> v)"
  by (simp add: fillna_def)

lemma length_clean_ETo: "length (clean_ETo raw) = length raw"
  by (simp add: clean_ETo_def fillna_def interpolate_def length_interpolate_from)

lemma length_clean_Rain: "length (clean_Rain raw) = length raw"
  by (simp add: clean_Rain_def fillna_def)

lemma clean_ETo_nth:
  "i < length raw \<Longrightarrow> interpolate_from None raw ! i = x \<Longrightarrow>
   clean_ETo raw ! i = (case x of None \<Rightarrow> 3.5 | Some v \<Rightarrow> v)"
  by (simp add: clean_ETo_def interpolate_def fillna_nth length_interpolate_from
      split: option.split)

lemma clean_ETo_known:
  assumes "i < length raw" and "raw ! i = Some v"
  shows "clean_ETo raw ! i = v"
  using clean_ETo_nth [OF assms(1) interpolate_from_known [OF assms]] by simp

lemma clean_ETo_gap:
  assumes "i < k"
  shows "clean_ETo (pre @ Some a # replicate k None @ Some b # post) ! (length pre + 1 + i)
    = a + (b - a) * real (i + 1) / real (k + 1)"
proof -
  let ?raw = "pre @ Some a # replicate k None @ Some b # post"
  let ?n = "length pre + 1 + i"
  have l: "?n < length ?raw"
    using assms by simp
  have cut: "interpolate_from None ?raw = interpolate_from None (pre @ [Some a])
      @ interpolate_from (Some (a, 0)) (replicate k None @ Some b # post)"
    by (rule interpolate_from_cut)
  have "interpolate_from None ?raw ! ?n
      = interpolate_from (Some (a, 0)) (replicate k None @ Some b # post) ! i"
    unfolding cut by (simp add: nth_append length_interpolate_from)
  also have "\<dots> = Some (a + (b - a) * real (0 + 1 + i) / real (0 + k + 1))"
    using assms by (rule interpolate_from_gap)
  finally show ?thesis
    using clean_ETo_nth [OF l] by (simp add: add.commute)
qed

lemma clean_ETo_trailing:
  assumes "i < k"
  shows "clean_ETo (pre @ Some a # replicate k None) ! (length pre + 1 + i) = a"
proof -
  let ?raw = "pre @ Some a # replicate k None"
  let ?n = "length pre + 1 + i"
  have l: "?n < length ?raw"
    using assms by simp
  have cut: "interpolate_from None ?raw = interpolate_from None (pre @ [Some a])
      @ interpolate_from (Some (a, 0)) (replicate k None)"
    by (rule interpolate_from_cut)
  have "interpolate_from None ?raw ! ?n
      = interpolate_from (Some (a, 0)) (replicate k None) ! i"
    unfolding cut by (simp add: nth_append length_interpolate_from)
  also have "\<dots> = Some a"
    using assms by (rule interpolate_from_trailing)
  finally show ?thesis
    using clean_ETo_nth [OF l] by simp
qed

lemma clean_ETo_leading:
  assumes "i < k"
  shows "clean_ETo (replicate k None @ rest) ! i = 3.5"
proof -
  have l: "i < length (replicate k None @ rest)"
    using assms by simp
  have "interpolate_from None (replicate k None @ rest) ! i = None"
    using assms by (simp add: interpolate_from_leading nth_append)
  from clean_ETo_nth [OF l this] show ?thesis by simp
qed

lemma clean_Rain_nth:
  "i < length raw \<Longrightarrow> clean_Rain raw ! i = (case raw ! i of None \<Rightarrow> 0 | Some v \<Rightarrow> v)"
  by (simp add: clean_Rain_def fillna_nth split: option.split)

lemma clean_ETo_nonneg:
  assumes "\<forall>v. Some v \<in> set raw \<longrightarrow> 0 \<le> v"
  shows "\<forall>x\<in>set (clean_ETo raw). 0 \<le> x"
proof -
  from assms have "\<forall>v. Some v \<in> set (interpolate_from None raw) \<longrightarrow> 0 \<le> v"
    by (rule interpolate_from_nonneg) simp
  then show ?thesis
    by (auto simp: clean_ETo_def interpolate_def fillna_def split: option.splits)
qed

lemma clean_Rain_nonneg:
  assumes "\<forall>v. Some v \<in> set raw \<longrightarrow> 0 \<le> v"
  shows "\<forall>x\<in>set (clean_Rain raw). 0 \<le> x"
  using assms by (auto simp: clean_Rain_def fillna_def split: option.splits)

lemma make_rows_columns:
  "length es = length ts \<Longrightarrow> length rs = length ts \<Longrightarrow>
   map Date (make_rows ts es rs) = ts \<and> map ETo (make_rows ts es rs) = es \<and>
   map Rain (make_rows ts es rs) = rs"
proof (induction ts es rs rule: make_rows.induct)
  case (1 t ts e es r rs)
  then show ?case by simp
qed auto

lemma to_datetime_Some:
  "to_datetime ts = Some dates \<Longrightarrow> map Is_date dates = ts"
proof (induction ts arbitrary: dates rule: to_datetime.induct)
  case 1
  then show ?case by simp
next
  case (2 t ts)
  then show ?case by auto
next
  case (3 t ts)
  then show ?case by simp
qed

lemma attempt_once_columns:
  assumes "attempt_once (Response code (Daily ts es rs)) = Inr df"
  shows "map Is_date (map Date df) = ts \<and> map ETo df = clean_ETo es \<and>
    map Rain df = clean_Rain rs"
proof -
  from assms obtain dates where l: "length es = length ts" "length rs = length ts"
    and d: "to_datetime ts = Some dates"
    and df: "df = make_rows dates (clean_ETo es) (clean_Rain rs)"
    by (auto split: if_splits option.splits)
  from to_datetime_Some [OF d] have ts: "map Is_date dates = ts" .
  then have "length dates = length ts"
    by (metis length_map)
  with l have "map Date df = dates \<and> map ETo df = clean_ETo es \<and> map Rain df = clean_Rain rs"
    unfolding df
    by (intro make_rows_columns) (simp_all add: length_clean_ETo length_clean_Rain)
  with ts show ?thesis by simp
qed

text \<open>
  Claim C7, as the code has it. The data frame of a successful request has the dates of the
  response, all of them read as dates, and the two cleaned columns. In the evapotranspiration column a known value is
  kept; a run of missing values between two known values lies on the line through them; a
  run of missing values after the last known value repeats that value; a run of missing
  values at the start, or a column without a known value, is set to 3.5. In the
  precipitation column a missing value is set to 0 and a known value is kept. Every entry
  is a number. When no known value of a column is negative, no cleaned value of it is.
\<close>

theorem C7_cleaning:
  "(attempt_once (Response code (Daily ts es rs)) = Inr df \<longrightarrow>
      map Is_date (map Date df) = ts \<and> map ETo df = clean_ETo es \<and>
      map Rain df = clean_Rain rs) \<and>
   length (clean_ETo raw) = length raw \<and> length (clean_Rain raw) = length raw \<and>
   (\<forall>i<length raw. \<forall>v. raw ! i = Some v \<longrightarrow> clean_ETo raw ! i = v) \<and>
   (\<forall>i<k. clean_ETo (pre @ Some a # replicate k None @ Some b # post) ! (length pre + 1 + i)
      = a + (b - a) * real (i + 1) / real (k + 1)) \<and>
   (\<forall>i<k. clean_ETo (pre @ Some a # replicate k None) ! (length pre + 1 + i) = a) \<and>
   (\<forall>i<k. clean_ETo (replicate k None @ post) ! i = 3.5) \<and>
   (\<forall>i<length raw. clean_Rain raw ! i = (case raw ! i of None \<Rightarrow> 0 | Some v \<Rightarrow> v)) \<and>
   ((\<forall>v. Some v \<in> set raw \<longrightarrow> 0 \<le> v) \<longrightarrow>
      (\<forall>x\<in>set (clean_ETo raw). 0 \<le> x) \<and> (\<forall>x\<in>set (clean_Rain raw). 0 \<le> x))"
proof (intro conjI)
  show "attempt_once (Response code (Daily ts es rs)) = Inr df \<longrightarrow>
      map Is_date (map Date df) = ts \<and> map ETo df = clean_ETo es \<and>
      map Rain df = clean_Rain rs"
    using attempt_once_columns [of code ts es rs df] by blast
  show "length (clean_ETo raw) = length raw"
    by (rule length_clean_ETo)
  show "length (clean_Rain raw) = length raw"
    by (rule length_clean_Rain)
  show "\<forall>i<length raw. \<forall>v. raw ! i = Some v \<longrightarrow> clean_ETo raw ! i = v"
    using clean_ETo_known [of _ raw] by blast
  show "\<forall>i<k. clean_ETo (pre @ Some a # replicate k None @ Some b # post)
      ! (length pre + 1 + i) = a + (b - a) * real (i + 1) / real (k + 1)"
    using clean_ETo_gap [of _ k pre a b post] by blast
  show "\<forall>i<k. clean_ETo (pre @ Some a # replicate k None) ! (length pre + 1 + i) = a"
    using clean_ETo_trailing [of _ k pre a] by blast
  show "\<forall>i<k. clean_ETo (replicate k None @ post) ! i = 3.5"
    using clean_ETo_leading [of _ k post] by blast
  show "\<forall>i<length raw. clean_Rain raw ! i = (case raw ! i of None \<Rightarrow> 0 | Some v \<Rightarrow> v)"
    using clean_Rain_nth [of _ raw] by blast
  show "(\<forall>v. Some v \<in> set raw \<longrightarrow> 0 \<le> v) \<longrightarrow>
      (\<forall>x\<in>set (clean_ETo raw). 0 \<le> x) \<and> (\<forall>x\<in>set (clean_Rain raw). 0 \<le> x)"
    using clean_ETo_nonneg [of raw] clean_Rain_nonneg [of raw] by blast
qed

text \<open>
  The column \<open>[-, 1, -, -, 4, -, -]\<close> is cleaned to \<open>[3.5, 1, 2, 3, 4, 4, 4]\<close>, and the
  response of scenario A gives the data frame of scenario A.
\<close>

theorem C7_cleaning_witness:
  "attempt_once (Response 200 (Daily [Is_date ''2025-01-03''] [Some 5] [Some 2]))
     = Inr [scenario_A] \<and>
   map ETo [scenario_A] = clean_ETo [Some 5] \<and>
   map Rain [scenario_A] = clean_Rain [Some 2] \<and>
   clean_ETo [None, Some 1, None, None, Some 4, None, None] ! 0 = 3.5 \<and>
   clean_ETo [None, Some 1, None, None, Some 4, None, None] ! 1 = 1 \<and>
   clean_ETo [None, Some 1, None, None, Some 4, None, None] ! 2 = 2 \<and>
   clean_ETo [None, Some 1, None, None, Some 4, None, None] ! 3 = 3 \<and>
   clean_ETo [None, Some 1, None, None, Some 4, None, None] ! 5 = 4 \<and>
   clean_ETo [None, Some 1, None, None, Some 4, None, None] ! 6 = 4 \<and>
   clean_Rain [Some 2, None] ! 1 = 0 \<and>
   0 \<le> clean_ETo [None, Some 1, None, None, Some 4, None, None] ! 4 \<and>
   0 \<le> clean_Rain [Some 2, None] ! 0"
proof -
  let ?raw = "[None, Some 1, None, None, Some 4, None, None] :: real option list"
  let ?two = "Suc (Suc 0)"
  have ok: "attempt_once (Response 200 (Daily [Is_date ''2025-01-03''] [Some 5] [Some 2]))
      = Inr [scenario_A]"
    by (simp add: clean_ETo_def clean_Rain_def interpolate_def fillna_def scenario_A_def)
  note frame = C7_cleaning [of 200 "[Is_date ''2025-01-03'']" "[Some 5]" "[Some 2]" "[scenario_A]"
      "[Some 2, None]" 0 "[]" 0 0 "[]"]
  note gap = C7_cleaning [of 200 "[]" "[]" "[]" "[]" ?raw ?two "[None]" 1 4 "[None, None]"]
  note trail = C7_cleaning [of 200 "[]" "[]" "[]" "[]" ?raw ?two "[None, Some 1, None, None]" 4 0 "[]"]
  note lead = C7_cleaning [of 200 "[]" "[]" "[]" "[]" ?raw "Suc 0" "[]" 0 0
      "[Some 1, None, None, Some 4, None, None]"]
  from frame ok have cols: "map ETo [scenario_A] = clean_ETo [Some 5]"
      "map Rain [scenario_A] = clean_Rain [Some 2]"
    by blast+
  from frame have rain: "clean_Rain [Some 2, None] ! 1 = 0"
    by simp
  have "\<forall>v. Some v \<in> set [Some (2::real), None] \<longrightarrow> 0 \<le> v"
    by simp
  with frame have "\<forall>x\<in>set (clean_Rain [Some 2, None]). 0 \<le> x"
    by blast
  moreover have "clean_Rain [Some 2, None] ! 0 \<in> set (clean_Rain [Some 2, None])"
    by (simp add: length_clean_Rain)
  ultimately have rain0: "0 \<le> clean_Rain [Some 2, None] ! 0"
    by blast
  from gap have known1: "clean_ETo ?raw ! 1 = 1"
    by simp
  from gap have "\<forall>i<?two. clean_ETo ?raw ! (2 + i) = 1 + (4 - 1) * real (i + 1) / 3"
    by simp
  then have g: "clean_ETo ?raw ! 2 = 2" "clean_ETo ?raw ! 3 = 3"
    by (simp_all add: less_Suc_eq numeral_3_eq_3 numeral_2_eq_2)
  from trail have "\<forall>i<?two.
      clean_ETo ?raw ! (length [None, Some 1, None, None :: real option] + 1 + i) = 4"
    by simp
  then have t: "clean_ETo ?raw ! 5 = 4" "clean_ETo ?raw ! 6 = 4"
    by (simp_all add: less_Suc_eq eval_nat_numeral)
  from lead have l: "clean_ETo ?raw ! 0 = 3.5"
    by simp
  have "\<forall>v. Some v \<in> set ?raw \<longrightarrow> 0 \<le> v"
    by auto
  with gap have "\<forall>x\<in>set (clean_ETo ?raw). 0 \<le> x"
    by blast
  moreover have "clean_ETo ?raw ! 4 \<in> set (clean_ETo ?raw)"
    by (simp add: length_clean_ETo)
  ultimately have n: "0 \<le> clean_ETo ?raw ! 4"
    by blast
  from ok cols rain rain0 known1 g t l n show ?thesis
    by (intro conjI)
qed

text \<open>
  The claim as written sets every value that interpolation between two known values cannot
  reach to 3.5 and promises that no cleaned value is negative. A missing value after the
  last known one repeats it instead, and a negative value of the response is kept.
\<close>

theorem C7_cleaning_counterexample:
  "clean_ETo [Some 2, None] = [2, 2] \<and>
   clean_ETo [Some 2, None] ! 1 \<noteq> 3.5 \<and>
   attempt_once (Response 200 (Daily [Is_date ''2025-01-03''] [Some (- 1)] [Some (- 1)]))
     = Inr [\<lparr>Date = ''2025-01-03'', ETo = - 1, Rain = - 1\<rparr>]"
  by (simp add: clean_ETo_def clean_Rain_def interpolate_def fillna_def)

end
